theory Spec2Isabelle
  imports Main
begin

section \<open>Strings of the host language\<close>

text \<open>
  A JavaScript string is a sequence of code units; it is modelled as a \<open>char list\<close>, one
  \<open>char\<close> per code unit, so the model covers the code units below 256. Equality,
  \<open>length\<close>, \<open>startsWith\<close>, \<open>endsWith\<close>, \<open>slice\<close> and \<open>split\<close> act on code units
  and read the same on any alphabet.
\<close>

abbreviation dq :: string where
  "dq \<equiv> [CHR 0x22]"

abbreviation sq :: string where
  "sq \<equiv> [CHR 0x27]"

definition startsWith :: "string \<Rightarrow> string \<Rightarrow> bool" where
  \<comment> \<open>\<open>s.startsWith(pre)\<close>\<close>
  "startsWith s pre = (take (length pre) s = pre)"

definition endsWith :: "string \<Rightarrow> string \<Rightarrow> bool" where
  \<comment> \<open>\<open>s.endsWith(suf)\<close>\<close>
  "endsWith s suf = (length suf \<le> length s \<and> drop (length s - length suf) s = suf)"

definition sliceFromEnd :: "nat \<Rightarrow> string \<Rightarrow> string" where
  \<comment> \<open>\<open>s.slice(-n)\<close>: the last \<open>n\<close> code units, the whole string when it is shorter\<close>
  "sliceFromEnd n s = drop (length s - n) s"

definition sliceTo :: "nat \<Rightarrow> string \<Rightarrow> string" where
  \<comment> \<open>\<open>s.slice(0, n)\<close> for \<open>n \<ge> 0\<close>\<close>
  "sliceTo n s = take n s"

fun splitOn :: "char \<Rightarrow> string \<Rightarrow> string list" where
  \<comment> \<open>\<open>s.split(sep)\<close> for a separator of one code unit: never the empty list\<close>
  "splitOn sep [] = [[]]"
| "splitOn sep (c # cs) =
     (if c = sep then [] # splitOn sep cs
      else (case splitOn sep cs of [] \<Rightarrow> [[c]] | w # ws \<Rightarrow> (c # w) # ws))"

fun joinWith :: "string \<Rightarrow> string list \<Rightarrow> string" where
  \<comment> \<open>\<open>xs.join(sep)\<close>\<close>
  "joinWith sep [] = []"
| "joinWith sep [x] = x"
| "joinWith sep (x # y # ys) = x @ sep @ joinWith sep (y # ys)"

definition isWhiteSpace :: "char \<Rightarrow> bool" where
  \<comment> \<open>the white space and line terminators that \<open>trim\<close> strips, among the code units
      below 256: TAB, LF, VT, FF, CR, SP, NBSP\<close>
  "isWhiteSpace c = (of_char c \<in> {9, 10, 11, 12, 13, 32, 160 :: nat})"

definition trim :: "string \<Rightarrow> string" where
  \<comment> \<open>\<open>s.trim()\<close>\<close>
  "trim s = rev (dropWhile isWhiteSpace (rev (dropWhile isWhiteSpace s)))"

fun getSubstitution :: "string \<Rightarrow> string \<Rightarrow> string \<Rightarrow> string \<Rightarrow> string" where
  \<comment> \<open>the replacement text of \<open>String.prototype.replace\<close> with a string pattern (no
      captures): \<open>$$\<close> is a dollar, \<open>$&\<close> the match, \<open>$`\<close> the text before it,
      \<open>$'\<close> the text after it; everything else is literal\<close>
  "getSubstitution matched front after [] = []"
| "getSubstitution matched front after [c] = [c]"
| "getSubstitution matched front after (c # d # r) =
     (if c = CHR ''$'' \<and> d = CHR ''$'' then CHR ''$'' # getSubstitution matched front after r
      else if c = CHR ''$'' \<and> d = CHR ''&'' then matched @ getSubstitution matched front after r
      else if c = CHR ''$'' \<and> d = CHR 0x60 then front @ getSubstitution matched front after r
      else if c = CHR ''$'' \<and> d = CHR 0x27 then after @ getSubstitution matched front after r
      else c # getSubstitution matched front after (d # r))"

fun replaceFrom :: "string \<Rightarrow> string \<Rightarrow> string \<Rightarrow> string \<Rightarrow> string" where
  \<comment> \<open>the search of \<open>replace\<close>: \<open>front\<close> is the text already passed over\<close>
  "replaceFrom pat repl front [] =
     (if pat = [] then front @ getSubstitution pat front [] repl else front)"
| "replaceFrom pat repl front (c # cs) =
     (if startsWith (c # cs) pat
      then front @ getSubstitution pat front (drop (length pat) (c # cs)) repl
                  @ drop (length pat) (c # cs)
      else replaceFrom pat repl (front @ [c]) cs)"

definition str_replace :: "string \<Rightarrow> string \<Rightarrow> string \<Rightarrow> string" where
  \<comment> \<open>\<open>s.replace(pat, repl)\<close> with a string pattern: the first occurrence only\<close>
  "str_replace s pat repl = replaceFrom pat repl [] s"

section \<open>Path resolution\<close>

text \<open>
  \<open>path.resolve\<close> of the Node library on POSIX, for one argument. The process's working
  directory \<open>cw\<close> (always absolute) is supplied by the caller. The segments between
  slashes are walked from the left: empty segments and \<open>.\<close> are dropped, \<open>..\<close> removes
  the segment before it (and is dropped at the root).
\<close>

fun normalizeSegments :: "string list \<Rightarrow> string list \<Rightarrow> string list" where
  "normalizeSegments [] acc = acc"
| "normalizeSegments (s # ss) acc =
     (if s = [] \<or> s = ''.'' then normalizeSegments ss acc
      else if s = ''..'' then normalizeSegments ss (butlast acc)
      else normalizeSegments ss (acc @ [s]))"

definition resolve :: "string \<Rightarrow> string \<Rightarrow> string" where
  "resolve cw p =
     (let full = (if p = [] then cw
                  else if hd p = CHR ''/'' then p
                  else cw @ ''/'' @ p)
      in CHR ''/'' # joinWith ''/'' (normalizeSegments (splitOn CHR ''/'' full) []))"

section \<open>The path access guard\<close>

definition expandHome :: "string \<Rightarrow> string \<Rightarrow> string" where
  \<comment> \<open>\<open>p.startsWith('~') ? p.replace('~', homedir()) : p\<close>\<close>
  "expandHome hm p = (if startsWith p ''~'' then str_replace p ''~'' hm else p)"

definition setAllowedPaths :: "string \<Rightarrow> string \<Rightarrow> string list \<Rightarrow> string list" where
  \<comment> \<open>the new value of the module variable \<open>allowedPaths\<close>\<close>
  "setAllowedPaths hm cw paths = map (\<lambda>p. resolve cw (expandHome hm p)) paths"

definition isPathAllowed :: "string list \<Rightarrow> string \<Rightarrow> string \<Rightarrow> bool" where
  \<comment> \<open>the first argument is the current value of \<open>allowedPaths\<close>\<close>
  "isPathAllowed allowedPaths cw targetPath =
     (if length allowedPaths = 0 then True
      else let resolved = resolve cw targetPath
           in list_ex (\<lambda>allowed. startsWith resolved (allowed @ ''/'') \<or> resolved = allowed)
                allowedPaths)"

section \<open>The host: file system and multiplexer\<close>

text \<open>
  The session manager talks to the outside through \<open>existsSync\<close>, \<open>execSync\<close> (a shell
  command line; it throws when the command fails) and \<open>spawnSync\<close> (a program and an
  argument vector). A \<open>host\<close> says how the outside answers during one operation: the
  answer to a command is \<open>Inr\<close> its standard output, or \<open>Inl\<close> the message of the error
  thrown. The effects an operation has on the outside are returned as a list, in the
  order in which they happen.
\<close>

datatype effect =
    ExecSync string
  | SpawnSync string "string list"
  | SetTimeout nat

record SpawnResult =
  status :: "int option"
  stderr :: "string option"

record host =
  homedir :: string
  cwd :: string
  existsSync :: "string \<Rightarrow> bool"
  execSync :: "string \<Rightarrow> string + string"
  spawnSync :: "string \<Rightarrow> string list \<Rightarrow> string + SpawnResult"

fun isSpawn :: "effect \<Rightarrow> bool" where
  "isSpawn (SpawnSync prog args) = True"
| "isSpawn (ExecSync cmd) = False"
| "isSpawn (SetTimeout ms) = False"

fun isTimer :: "effect \<Rightarrow> bool" where
  "isTimer (SetTimeout ms) = True"
| "isTimer (ExecSync cmd) = False"
| "isTimer (SpawnSync prog args) = False"

fun isShellCommand :: "effect \<Rightarrow> bool" where
  "isShellCommand (ExecSync cmd) = True"
| "isShellCommand (SpawnSync prog args) = False"
| "isShellCommand (SetTimeout ms) = False"

section \<open>Session descriptors\<close>

datatype date =
    CurrentTime
  | EpochSecondsOf string

text \<open>
  \<open>createdAt\<close> is \<open>new Date()\<close> (\<open>CurrentTime\<close>) or
  \<open>new Date(parseInt(created) * 1000)\<close> (\<open>EpochSecondsOf created\<close>); the date arithmetic
  is left symbolic. One record serves both copies of the session manager:
  \<open>src/unnamed/part_000\<close> has no \<open>guildId\<close> (it is \<open>None\<close> there) and an optional
  \<open>channelId\<close>; \<open>src/src/sessionManager.ts\<close> always sets both.
\<close>

record SessionInfo =
  id' :: string
  tmuxName :: string
  directory :: string
  guildId :: "string option"
  channelId :: "string option"
  attachCommand :: string
  createdAt :: "date option"

section \<open>The session manager of src/src/sessionManager.ts\<close>

definition SESSION_PREFIX :: string where
  "SESSION_PREFIX = ''disco_''"

definition makeSessionId :: "string \<Rightarrow> string \<Rightarrow> string" where
  "makeSessionId guild channel = guild @ ''_'' @ channel"

definition parseSessionId :: "string \<Rightarrow> (string \<times> string) option" where
  "parseSessionId sessionId =
     (let parts = splitOn CHR ''_'' sessionId
      in if length parts \<noteq> 2 then None else Some (parts ! 0, parts ! 1))"

definition getTmuxName :: "string \<Rightarrow> string" where
  "getTmuxName sessionId = SESSION_PREFIX @ sessionId"

definition getSessionIdFromTmuxName :: "string \<Rightarrow> string option" where
  "getSessionIdFromTmuxName name =
     (if \<not> startsWith name SESSION_PREFIX then None
      else Some (drop (length SESSION_PREFIX) name))"

definition hasSessionCmd :: "string \<Rightarrow> string" where
  "hasSessionCmd name = ''tmux has-session -t '' @ dq @ name @ dq @ '' 2>/dev/null''"

definition sessionExists :: "host \<Rightarrow> string \<Rightarrow> bool" where
  "sessionExists h sessionId =
     (case execSync h (hasSessionCmd (getTmuxName sessionId)) of
        Inl err \<Rightarrow> False
      | Inr out \<Rightarrow> True)"

definition newSessionArgs :: "string \<Rightarrow> string \<Rightarrow> string list" where
  "newSessionArgs name resolvedDir =
     [''new-session'', ''-d'', ''-x'', ''200'', ''-y'', ''50'', ''-s'', name,
      ''-c'', resolvedDir, ''claude'', ''--dangerously-skip-permissions'']"

definition spawnFailure :: "string + SpawnResult \<Rightarrow> string option" where
  \<comment> \<open>the message thrown inside the \<open>try\<close> block of \<open>createSession\<close>, if any: what
      \<open>spawnSync\<close> throws, or \<open>result.stderr?.toString() || 'tmux command failed'\<close> when
      \<open>result.status !== 0\<close>\<close>
  "spawnFailure r =
     (case r of
        Inl err \<Rightarrow> Some err
      | Inr result \<Rightarrow>
          if status result = Some 0 then None
          else (case stderr result of
                  None \<Rightarrow> Some ''tmux command failed''
                | Some e \<Rightarrow> Some (if e = [] then ''tmux command failed'' else e)))"

definition createSession ::
  "string list \<Rightarrow> host \<Rightarrow> string \<Rightarrow> string \<Rightarrow> string \<Rightarrow> (string + SessionInfo) \<times> effect list"
where
  "createSession allowedPaths h guild channel dir =
     (let sessionId = makeSessionId guild channel;
          name = getTmuxName sessionId;
          expandedDir = expandHome (homedir h) dir;
          resolvedDir = resolve (cwd h) expandedDir
      in if \<not> isPathAllowed allowedPaths (cwd h) resolvedDir
         then (Inl (''Directory not in allowed paths: '' @ resolvedDir), [])
         else if \<not> existsSync h resolvedDir
         then (Inl (''Directory does not exist: '' @ resolvedDir), [])
         else if sessionExists h sessionId
         then (Inl ''Session for this channel already exists'', [ExecSync (hasSessionCmd name)])
         else (case spawnFailure (spawnSync h ''tmux'' (newSessionArgs name resolvedDir)) of
                 Some msg \<Rightarrow>
                   (Inl (''Failed to create session: '' @ msg),
                    [ExecSync (hasSessionCmd name),
                     SpawnSync ''tmux'' (newSessionArgs name resolvedDir)])
               | None \<Rightarrow>
                   (Inr \<lparr>id' = sessionId, tmuxName = name, directory = resolvedDir,
                         guildId = Some guild, channelId = Some channel,
                         attachCommand = ''tmux attach -t '' @ name,
                         createdAt = Some CurrentTime\<rparr>,
                    [ExecSync (hasSessionCmd name),
                     SpawnSync ''tmux'' (newSessionArgs name resolvedDir)])))"

definition listSessionsCmd :: string where
  "listSessionsCmd =
     ''tmux list-sessions -F '' @ dq
       @ ''#{session_name}|#{session_created}|#{pane_current_path}'' @ dq @ '' 2>/dev/null''"

definition nth_opt :: "'a list \<Rightarrow> nat \<Rightarrow> 'a option" where
  \<comment> \<open>an array element; \<open>undefined\<close> past the end\<close>
  "nth_opt xs i = (if i < length xs then Some (xs ! i) else None)"

definition orElse :: "string option \<Rightarrow> string \<Rightarrow> string" where
  \<comment> \<open>\<open>v || d\<close> on a string that may be undefined or null: the empty string is falsy\<close>
  "orElse v d = (case v of None \<Rightarrow> d | Some s \<Rightarrow> if s = [] then d else s)"

definition createdDate :: "string option \<Rightarrow> date option" where
  \<comment> \<open>\<open>created ? new Date(parseInt(created) * 1000) : null\<close>\<close>
  "createdDate created =
     (case created of None \<Rightarrow> None | Some c \<Rightarrow> if c = [] then None else Some (EpochSecondsOf c))"

definition sessionOfLine :: "string \<Rightarrow> SessionInfo" where
  \<comment> \<open>the function mapped over the lines in \<open>listSessions\<close>; \<open>split\<close> returns at
      least one field, so \<open>name\<close> is always defined\<close>
  "sessionOfLine line =
     (let fields = splitOn CHR ''|'' line;
          name = hd fields;
          created = nth_opt fields 1;
          path = nth_opt fields 2;
          sessionId = getSessionIdFromTmuxName name;
          parsed = (case sessionId of
                      None \<Rightarrow> None
                    | Some s \<Rightarrow> if s = [] then None else parseSessionId s)
      in \<lparr>id' = orElse sessionId name,
          tmuxName = name,
          directory = orElse path ''unknown'',
          guildId = Some (orElse (map_option fst parsed) []),
          channelId = Some (orElse (map_option snd parsed) []),
          attachCommand = ''tmux attach -t '' @ name,
          createdAt = createdDate created\<rparr>)"

definition listSessions :: "host \<Rightarrow> SessionInfo list" where
  "listSessions h =
     (case execSync h listSessionsCmd of
        Inl err \<Rightarrow> []
      | Inr output \<Rightarrow>
          map sessionOfLine
            (filter (\<lambda>line. startsWith line SESSION_PREFIX)
               (splitOn CHR ''\<newline>'' (trim output))))"

definition escapeQuotes :: "string \<Rightarrow> string" where
  \<comment> \<open>\<open>text.replace(/'/g, "'\\''")\<close>: every single quote becomes the four code units
      quote, backslash, quote, quote\<close>
  "escapeQuotes txt = concat (map (\<lambda>c. if c = CHR 0x27 then sq @ [CHR 0x5C] @ sq @ sq else [c]) txt)"

definition sendLiteralCmd :: "string \<Rightarrow> string \<Rightarrow> string" where
  "sendLiteralCmd name escapedText =
     ''tmux send-keys -t '' @ dq @ name @ dq @ '' -l '' @ sq @ escapedText @ sq"

definition sendKeyCmd :: "string \<Rightarrow> string \<Rightarrow> string" where
  "sendKeyCmd name key = ''tmux send-keys -t '' @ dq @ name @ dq @ '' '' @ key"

definition sendToSession :: "host \<Rightarrow> string \<Rightarrow> string \<Rightarrow> (string + bool) \<times> effect list" where
  "sendToSession h sessionId txt =
     (let name = getTmuxName sessionId;
          probe = ExecSync (hasSessionCmd name);
          literal = sendLiteralCmd name (escapeQuotes txt);
          enter = sendKeyCmd name ''Enter''
      in if \<not> sessionExists h sessionId then (Inl ''Session does not exist'', [probe])
         else (case execSync h literal of
                 Inl err \<Rightarrow> (Inl (''Failed to send to session: '' @ err), [probe, ExecSync literal])
               | Inr out \<Rightarrow>
                   (case execSync h enter of
                      Inl err \<Rightarrow>
                        (Inl (''Failed to send to session: '' @ err),
                         [probe, ExecSync literal, SetTimeout 1500, ExecSync enter])
                    | Inr out' \<Rightarrow>
                        (Inr True, [probe, ExecSync literal, SetTimeout 1500, ExecSync enter]))))"

definition capturePaneCmd :: "string \<Rightarrow> string \<Rightarrow> string" where
  \<comment> \<open>\<open>lines\<close> is the text that the template literal makes of the number \<open>lines\<close>
      (\<open>200\<close> for the default of \<open>getNewOutput\<close>, \<open>100\<close> for that of
      \<open>captureOutput\<close>); the number enters the command only through this text\<close>
  "capturePaneCmd name lines =
     ''tmux capture-pane -t '' @ dq @ name @ dq @ '' -p -e -S -'' @ lines
       @ '' -E '' @ sq @ sq"

definition captureOutput :: "host \<Rightarrow> string \<Rightarrow> string \<Rightarrow> string + string" where
  "captureOutput h sessionId lines =
     (if \<not> sessionExists h sessionId then Inl ''Session does not exist''
      else (case execSync h (capturePaneCmd (getTmuxName sessionId) lines) of
              Inl err \<Rightarrow> Inl (''Failed to capture output: '' @ err)
            | Inr output \<Rightarrow> Inr output))"

function diffLoop :: "string list \<Rightarrow> string list \<Rightarrow> nat \<Rightarrow> nat \<Rightarrow> nat" where
  \<comment> \<open>the \<open>for\<close> loop of \<open>getNewOutput\<close>, entered with \<open>i = 0\<close> and \<open>diffStart = 0\<close>\<close>
  "diffLoop lastLines newLines i diffStart =
     (if i < length newLines
      then (if newLines ! i \<in> set lastLines
            then diffLoop lastLines newLines (i + 1) (i + 1)
            else diffStart)
      else diffStart)"
  by pat_completeness auto
termination
  by (relation "measure (\<lambda>(lastLines, newLines, i, diffStart). length newLines - i)") auto

declare diffLoop.simps [simp del]

definition diffOutput :: "string \<Rightarrow> string \<Rightarrow> string option" where
  \<comment> \<open>what \<open>getNewOutput\<close> returns, from the cached capture \<open>last\<close>, written \<open>last'\<close>
      (the empty string when there is none), and the new capture \<open>output\<close>\<close>
  "diffOutput last' output =
     (if last' = [] \<or> output = last' then None
      else if length output > length last' \<and> endsWith output (sliceFromEnd 500 last')
      then Some (sliceTo (length output - length last') output)
      else let lastLines = splitOn CHR ''\<newline>'' (trim last');
               newLines = splitOn CHR ''\<newline>'' (trim output);
               diffStart = diffLoop lastLines newLines 0 0;
               newContent = trim (joinWith ''\<newline>'' (drop diffStart newLines))
           in if newContent = [] then None else Some newContent)"

definition getNewOutput ::
  "(string \<rightharpoonup> string) \<Rightarrow> host \<Rightarrow> string \<Rightarrow> string \<Rightarrow> (string + string option) \<times> (string \<rightharpoonup> string)"
where
  \<comment> \<open>\<open>cache\<close> and the second result are the map \<open>lastOutput\<close>, before and after\<close>
  "getNewOutput cache h sessionId lines =
     (case captureOutput h sessionId lines of
        Inl err \<Rightarrow> (Inl err, cache)
      | Inr output \<Rightarrow>
          (Inr (diffOutput (orElse (cache sessionId) []) output),
           cache(sessionId \<mapsto> output)))"

definition killSessionCmd :: "string \<Rightarrow> string" where
  "killSessionCmd name = ''tmux kill-session -t '' @ dq @ name @ dq"

definition killSession ::
  "(string \<rightharpoonup> string) \<Rightarrow> host \<Rightarrow> string \<Rightarrow> (string + bool) \<times> (string \<rightharpoonup> string)"
where
  "killSession cache h sessionId =
     (if \<not> sessionExists h sessionId then (Inl ''Session does not exist'', cache)
      else (case execSync h (killSessionCmd (getTmuxName sessionId)) of
              Inl err \<Rightarrow> (Inl (''Failed to kill session: '' @ err), cache)
            | Inr out \<Rightarrow> (Inr True, cache(sessionId := None))))"

section \<open>The session manager of src/unnamed/part_000\<close>

text \<open>
  This copy names its sessions \<open>claude-\<close> followed by the id, takes the session id as an
  argument and keeps the two maps of the channel registry beside the output cache. Its
  \<open>isPathAllowed\<close> and the body of its \<open>getNewOutput\<close> are those modelled above.
\<close>

record SessionManager0 =
  channelMap :: "string \<rightharpoonup> string"
  reverseMap :: "string \<rightharpoonup> string"
  lastOutput :: "string \<rightharpoonup> string"

definition newSessionManager0 :: SessionManager0 where
  "newSessionManager0 = \<lparr>channelMap = Map.empty, reverseMap = Map.empty, lastOutput = Map.empty\<rparr>"

definition SESSION_PREFIX0 :: string where
  "SESSION_PREFIX0 = ''claude-''"

definition getTmuxName0 :: "string \<Rightarrow> string" where
  "getTmuxName0 sessionId = SESSION_PREFIX0 @ sessionId"

definition sessionExists0 :: "host \<Rightarrow> string \<Rightarrow> bool" where
  "sessionExists0 h sessionId =
     (case execSync h (hasSessionCmd (getTmuxName0 sessionId)) of
        Inl err \<Rightarrow> False
      | Inr out \<Rightarrow> True)"

definition linkChannel :: "SessionManager0 \<Rightarrow> string \<Rightarrow> string \<Rightarrow> SessionManager0" where
  "linkChannel m sessionId channel =
     m\<lparr>channelMap := (channelMap m)(sessionId \<mapsto> channel),
       reverseMap := (reverseMap m)(channel \<mapsto> sessionId)\<rparr>"

definition getSessionByChannel :: "SessionManager0 \<Rightarrow> string \<Rightarrow> string option" where
  "getSessionByChannel m channel = reverseMap m channel"

definition getChannelBySession :: "SessionManager0 \<Rightarrow> string \<Rightarrow> string option" where
  "getChannelBySession m sessionId = channelMap m sessionId"

definition unlinkChannel :: "SessionManager0 \<Rightarrow> string \<Rightarrow> SessionManager0" where
  \<comment> \<open>\<open>if (sessionId)\<close>: an undefined and an empty session id are both falsy\<close>
  "unlinkChannel m channel =
     (case reverseMap m channel of
        None \<Rightarrow> m
      | Some sessionId \<Rightarrow>
          if sessionId = [] then m
          else m\<lparr>channelMap := (channelMap m)(sessionId := None),
                 reverseMap := (reverseMap m)(channel := None)\<rparr>)"

definition createSession0 ::
  "string list \<Rightarrow> host \<Rightarrow> SessionManager0 \<Rightarrow> string \<Rightarrow> string \<Rightarrow> string
     \<Rightarrow> (string + SessionInfo) \<times> SessionManager0 \<times> effect list"
where
  "createSession0 allowedPaths h m sessionId dir channel =
     (let name = getTmuxName0 sessionId;
          expandedDir = expandHome (homedir h) dir;
          resolvedDir = resolve (cwd h) expandedDir
      in if \<not> isPathAllowed allowedPaths (cwd h) resolvedDir
         then (Inl (''Directory not in allowed paths: '' @ resolvedDir), m, [])
         else if \<not> existsSync h resolvedDir
         then (Inl (''Directory does not exist: '' @ resolvedDir), m, [])
         else if sessionExists0 h sessionId
         then (Inl (''Session '' @ dq @ sessionId @ dq @ '' already exists''), m,
               [ExecSync (hasSessionCmd name)])
         else (case spawnFailure (spawnSync h ''tmux'' (newSessionArgs name resolvedDir)) of
                 Some msg \<Rightarrow>
                   (Inl (''Failed to create session: '' @ msg), m,
                    [ExecSync (hasSessionCmd name),
                     SpawnSync ''tmux'' (newSessionArgs name resolvedDir)])
               | None \<Rightarrow>
                   (Inr \<lparr>id' = sessionId, tmuxName = name, directory = resolvedDir,
                         guildId = None, channelId = Some channel,
                         attachCommand = ''tmux attach -t '' @ name,
                         createdAt = Some CurrentTime\<rparr>,
                    m\<lparr>channelMap := (channelMap m)(sessionId \<mapsto> channel),
                      reverseMap := (reverseMap m)(channel \<mapsto> sessionId)\<rparr>,
                    [ExecSync (hasSessionCmd name),
                     SpawnSync ''tmux'' (newSessionArgs name resolvedDir)])))"

definition sendToSession0 :: "host \<Rightarrow> string \<Rightarrow> string \<Rightarrow> (string + bool) \<times> effect list" where
  \<comment> \<open>the two \<open>execSync\<close> calls follow each other directly: this copy sets no timer\<close>
  "sendToSession0 h sessionId txt =
     (let name = getTmuxName0 sessionId;
          probe = ExecSync (hasSessionCmd name);
          literal = sendLiteralCmd name (escapeQuotes txt);
          enter = sendKeyCmd name ''Enter''
      in if \<not> sessionExists0 h sessionId
         then (Inl (''Session '' @ dq @ sessionId @ dq @ '' does not exist''), [probe])
         else (case execSync h literal of
                 Inl err \<Rightarrow> (Inl (''Failed to send to session: '' @ err), [probe, ExecSync literal])
               | Inr out \<Rightarrow>
                   (case execSync h enter of
                      Inl err \<Rightarrow>
                        (Inl (''Failed to send to session: '' @ err),
                         [probe, ExecSync literal, ExecSync enter])
                    | Inr out' \<Rightarrow> (Inr True, [probe, ExecSync literal, ExecSync enter]))))"

definition killSession0 :: "SessionManager0 \<Rightarrow> host \<Rightarrow> string \<Rightarrow> (string + bool) \<times> SessionManager0" where
  \<comment> \<open>\<open>if (channelId)\<close>: an undefined and an empty channel id are both falsy\<close>
  "killSession0 m h sessionId =
     (if \<not> sessionExists0 h sessionId
      then (Inl (''Session '' @ dq @ sessionId @ dq @ '' does not exist''), m)
      else (case execSync h (killSessionCmd (getTmuxName0 sessionId)) of
              Inl err \<Rightarrow> (Inl (''Failed to kill session: '' @ err), m)
            | Inr out \<Rightarrow>
                (let m1 = (case channelMap m sessionId of
                             None \<Rightarrow> m
                           | Some channel \<Rightarrow>
                               if channel = [] then m
                               else m\<lparr>reverseMap := (reverseMap m)(channel := None)\<rparr>);
                     m2 = m1\<lparr>channelMap := (channelMap m1)(sessionId := None)\<rparr>;
                     m3 = m2\<lparr>lastOutput := (lastOutput m2)(sessionId := None)\<rparr>
                 in (Inr True, m3))))"

definition sessionOfLine0 :: "SessionManager0 \<Rightarrow> string \<Rightarrow> SessionInfo" where
  "sessionOfLine0 m line =
     (let fields = splitOn CHR ''|'' line;
          name = hd fields;
          created = nth_opt fields 1;
          path = nth_opt fields 2;
          sessionId = str_replace name SESSION_PREFIX0 []
      in \<lparr>id' = sessionId,
          tmuxName = name,
          directory = orElse path ''unknown'',
          guildId = None,
          channelId = channelMap m sessionId,
          attachCommand = ''tmux attach -t '' @ name,
          createdAt = createdDate created\<rparr>)"

definition listSessions0 :: "SessionManager0 \<Rightarrow> host \<Rightarrow> SessionInfo list" where
  "listSessions0 m h =
     (case execSync h listSessionsCmd of
        Inl err \<Rightarrow> []
      | Inr output \<Rightarrow>
          map (sessionOfLine0 m)
            (filter (\<lambda>line. startsWith line SESSION_PREFIX0)
               (splitOn CHR ''\<newline>'' (trim output))))"

section \<open>Example hosts\<close>

definition answeringHost :: "string \<Rightarrow> host" where
  \<comment> \<open>every directory exists, every command succeeds and prints \<open>out\<close>\<close>
  "answeringHost out =
     \<lparr>homedir = ''/home/user'', cwd = ''/srv'', existsSync = (\<lambda>p. True),
      execSync = (\<lambda>cmd. Inr out),
      spawnSync = (\<lambda>prog args. Inr \<lparr>status = Some 0, stderr = None\<rparr>)\<rparr>"

definition emptyHost :: host where
  \<comment> \<open>no directory exists, no multiplexer session runs\<close>
  "emptyHost =
     \<lparr>homedir = ''/home/user'', cwd = ''/srv'', existsSync = (\<lambda>p. False),
      execSync = (\<lambda>cmd. Inl ''no server running''),
      spawnSync = (\<lambda>prog args. Inr \<lparr>status = Some 0, stderr = None\<rparr>)\<rparr>"

definition freshHost :: host where
  \<comment> \<open>every directory exists, no multiplexer session runs, a spawn succeeds\<close>
  "freshHost =
     \<lparr>homedir = ''/home/user'', cwd = ''/srv'', existsSync = (\<lambda>p. True),
      execSync = (\<lambda>cmd. Inl ''no server running''),
      spawnSync = (\<lambda>prog args. Inr \<lparr>status = Some 0, stderr = None\<rparr>)\<rparr>"

section \<open>Facts about the string functions\<close>

lemma startsWith_iff_append: "startsWith s pre \<longleftrightarrow> (\<exists>rest. s = pre @ rest)"
proof
  assume "startsWith s pre"
  then have "s = pre @ drop (length pre) s"
    unfolding startsWith_def by (metis append_take_drop_id)
  then show "\<exists>rest. s = pre @ rest" ..
next
  assume "\<exists>rest. s = pre @ rest"
  then show "startsWith s pre"
    unfolding startsWith_def by auto
qed

lemma resolve_projects_evil: "resolve cw ''/home/projects-evil'' = ''/home/projects-evil''"
  by (simp add: resolve_def)

lemma resolve_projects: "resolve cw ''/home/projects'' = ''/home/projects''"
  by (simp add: resolve_def)

lemma trim_AB: "trim ''A\<newline>B'' = ''A\<newline>B''"
  by (simp add: trim_def isWhiteSpace_def)

lemma trim_ABC: "trim ''A\<newline>B\<newline>C'' = ''A\<newline>B\<newline>C''"
  by (simp add: trim_def isWhiteSpace_def)

lemma trim_C: "trim ''C'' = ''C''"
  by (simp add: trim_def isWhiteSpace_def)

lemma diffLoop_ABC: "diffLoop [''A'', ''B''] [''A'', ''B'', ''C''] 0 0 = 2"
  by (simp add: diffLoop.simps)

lemma diffOutput_ABC: "diffOutput ''A\<newline>B'' ''A\<newline>B\<newline>C'' = Some ''C''"
  by (simp add: diffOutput_def endsWith_def sliceFromEnd_def trim_AB trim_ABC trim_C diffLoop_ABC)

section \<open>Facts about the example hosts\<close>

lemma execSync_answering: "execSync (answeringHost out) cmd = Inr out"
  by (simp add: answeringHost_def)

lemma sessionExists_answering: "sessionExists (answeringHost out) sessionId"
  by (simp add: sessionExists_def answeringHost_def)

lemma sessionExists0_answering: "sessionExists0 (answeringHost out) sessionId"
  by (simp add: sessionExists0_def answeringHost_def)

lemma captureOutput_answering: "captureOutput (answeringHost out) sessionId lines = Inr out"
  by (simp add: captureOutput_def sessionExists_def answeringHost_def)

section \<open>Facts about paths, lines and more example hosts\<close>

lemma resolve_etc_nope: "resolve cw ''/etc/nope'' = ''/etc/nope''"
  by (simp add: resolve_def)

lemma expandHome_absolute: "p \<noteq> [] \<Longrightarrow> hd p = CHR ''/'' \<Longrightarrow> expandHome hm p = p"
  by (cases p) (simp_all add: expandHome_def startsWith_def)

lemma sessionExists_existsSync_update [simp]:
  "sessionExists (h\<lparr>existsSync := f\<rparr>) sessionId = sessionExists h sessionId"
  by (simp add: sessionExists_def)

lemma existsSync_answering: "existsSync (answeringHost out) p"
  by (simp add: answeringHost_def)

lemma resolve_tmp: "resolve cw ''/tmp'' = ''/tmp''"
  by (simp add: resolve_def)

lemma isPathAllowed_Nil: "isPathAllowed [] cw p"
  by (simp add: isPathAllowed_def)

lemma resolve_tmp_whoami: "resolve cw ''/tmp/$(whoami)'' = ''/tmp/$(whoami)''"
  by (simp add: resolve_def)

lemma sessionExists_fresh: "\<not> sessionExists freshHost sessionId"
  by (simp add: sessionExists_def freshHost_def)

lemma existsSync_fresh: "existsSync freshHost p"
  by (simp add: freshHost_def)

lemma spawnSync_fresh: "spawnFailure (spawnSync freshHost prog args) = None"
  by (simp add: freshHost_def spawnFailure_def)

lemma splitOn_not_Nil: "splitOn sep s \<noteq> []"
  by (induction s) (auto split: list.splits)

lemma hd_splitOn_append:
  "sep \<notin> set p \<Longrightarrow> hd (splitOn sep (p @ rest)) = p @ hd (splitOn sep rest)"
proof (induction p)
  case Nil
  then show ?case by simp
next
  case (Cons c p)
  then show ?case
    using splitOn_not_Nil [of sep "p @ rest"] by (auto split: list.splits)
qed

lemma startsWith_hd_splitOn:
  assumes "startsWith line pre" and "sep \<notin> set pre"
  shows "startsWith (hd (splitOn sep line)) pre"
proof -
  from assms(1) obtain rest where "line = pre @ rest"
    by (auto simp: startsWith_iff_append)
  with assms(2) have "hd (splitOn sep line) = pre @ hd (splitOn sep rest)"
    by (simp add: hd_splitOn_append)
  then show ?thesis
    by (auto simp: startsWith_iff_append)
qed

lemma str_replace_prefix:
  assumes "startsWith s pat" and "pat \<noteq> []"
  shows "str_replace s pat [] = drop (length pat) s"
proof (cases s)
  case Nil
  with assms show ?thesis by (simp add: startsWith_def)
next
  case (Cons c cs)
  with assms show ?thesis by (simp add: str_replace_def)
qed

lemma sessionOfLine_name:
  "startsWith line SESSION_PREFIX \<Longrightarrow>
   startsWith (tmuxName (sessionOfLine line)) SESSION_PREFIX
   \<and> id' (sessionOfLine line)
       = (if tmuxName (sessionOfLine line) = SESSION_PREFIX then tmuxName (sessionOfLine line)
          else drop (length SESSION_PREFIX) (tmuxName (sessionOfLine line)))"
proof -
  assume a: "startsWith line SESSION_PREFIX"
  have "CHR ''|'' \<notin> set SESSION_PREFIX"
    by (simp add: SESSION_PREFIX_def)
  with a have n: "startsWith (hd (splitOn CHR ''|'' line)) SESSION_PREFIX"
    by (rule startsWith_hd_splitOn)
  then obtain rest where r: "hd (splitOn CHR ''|'' line) = SESSION_PREFIX @ rest"
    by (auto simp: startsWith_iff_append)
  show ?thesis
    using n r by (auto simp: sessionOfLine_def Let_def getSessionIdFromTmuxName_def orElse_def)
qed

lemma sessionOfLine0_name:
  "startsWith line SESSION_PREFIX0 \<Longrightarrow>
   startsWith (tmuxName (sessionOfLine0 m line)) SESSION_PREFIX0
   \<and> id' (sessionOfLine0 m line) = drop (length SESSION_PREFIX0) (tmuxName (sessionOfLine0 m line))"
proof -
  assume a: "startsWith line SESSION_PREFIX0"
  have "CHR ''|'' \<notin> set SESSION_PREFIX0"
    by (simp add: SESSION_PREFIX0_def)
  with a have n: "startsWith (hd (splitOn CHR ''|'' line)) SESSION_PREFIX0"
    by (rule startsWith_hd_splitOn)
  have "SESSION_PREFIX0 \<noteq> []"
    by (simp add: SESSION_PREFIX0_def)
  with n have "str_replace (hd (splitOn CHR ''|'' line)) SESSION_PREFIX0 []
      = drop (length SESSION_PREFIX0) (hd (splitOn CHR ''|'' line))"
    by (rule str_replace_prefix)
  with n show ?thesis
    by (simp add: sessionOfLine0_def Let_def)
qed

lemma listSessions_example:
  "listSessions (answeringHost ''disco_1_2|1700000000|/tmp\<newline>other|1700000001|/home\<newline>'')
     = [\<lparr>id' = ''1_2'', tmuxName = ''disco_1_2'', directory = ''/tmp'', guildId = Some ''1'',
         channelId = Some ''2'', attachCommand = ''tmux attach -t disco_1_2'',
         createdAt = Some (EpochSecondsOf ''1700000000'')\<rparr>]"
  by (simp add: listSessions_def execSync_answering trim_def isWhiteSpace_def startsWith_def
      SESSION_PREFIX_def sessionOfLine_def getSessionIdFromTmuxName_def orElse_def Let_def
      nth_opt_def parseSessionId_def createdDate_def)

chapter \<open>The claims\<close>

section \<open>C1: the path access guard\<close>

text \<open>
  C1. With an empty allowlist every candidate is allowed. With a non-empty allowlist a
  candidate is allowed exactly when its resolved path is one of the allowed roots or is
  such a root followed by \<open>/\<close> and more text. With the root \<open>/home/projects\<close> configured,
  the candidate \<open>/home/projects-evil\<close> is rejected.
\<close>

theorem isPathAllowed_containment:
  "(allowedPaths = [] \<longrightarrow> isPathAllowed allowedPaths cw p)
   \<and> (allowedPaths \<noteq> [] \<longrightarrow>
        (isPathAllowed allowedPaths cw p \<longleftrightarrow>
           (\<exists>root \<in> set allowedPaths.
              resolve cw p = root \<or> (\<exists>rest. resolve cw p = root @ ''/'' @ rest))))
   \<and> \<not> isPathAllowed (setAllowedPaths hm cw [''/home/projects'']) cw ''/home/projects-evil''"
proof (intro conjI impI)
  assume "allowedPaths = []"
  then show "isPathAllowed allowedPaths cw p"
    by (simp add: isPathAllowed_def)
next
  assume "allowedPaths \<noteq> []"
  then show "isPathAllowed allowedPaths cw p \<longleftrightarrow>
    (\<exists>root \<in> set allowedPaths.
       resolve cw p = root \<or> (\<exists>rest. resolve cw p = root @ ''/'' @ rest))"
    by (auto simp: isPathAllowed_def Let_def list_ex_iff startsWith_iff_append)
next
  have "expandHome hm ''/home/projects'' = ''/home/projects''"
    by (simp add: expandHome_def startsWith_def)
  then have "setAllowedPaths hm cw [''/home/projects''] = [''/home/projects'']"
    by (simp add: setAllowedPaths_def resolve_projects)
  then show "\<not> isPathAllowed (setAllowedPaths hm cw [''/home/projects'']) cw ''/home/projects-evil''"
    by (simp add: isPathAllowed_def resolve_projects_evil startsWith_def)
qed

theorem isPathAllowed_containment_witness:
  "[''/home/projects''] \<noteq> [] \<and> isPathAllowed [''/home/projects''] ''/srv'' ''/home/projects/app''"
proof -
  have r: "resolve ''/srv'' ''/home/projects/app'' = ''/home/projects'' @ ''/'' @ ''app''"
    by (simp add: resolve_def)
  show ?thesis
    using isPathAllowed_containment [of "[''/home/projects'']" "''/srv''" "''/home/projects/app''"] r
    by simp
qed

section \<open>C2: how the multiplexer is invoked\<close>

text \<open>
  C2, as stated: every invocation of the multiplexer passes the directory, the text and
  the session name as elements of an argument vector. \<open>sendToSession\<close> does not: it
  gives \<open>execSync\<close> shell command lines into which the session name and the text are
  interpolated.
\<close>

theorem sendToSession_shell_counterexample:
  "sendToSession (answeringHost []) ''1_2'' ''hello''
     = (Inr True,
        [ExecSync (''tmux has-session -t '' @ dq @ ''disco_1_2'' @ dq @ '' 2>/dev/null''),
         ExecSync (''tmux send-keys -t '' @ dq @ ''disco_1_2'' @ dq @ '' -l '' @ sq @ ''hello'' @ sq),
         SetTimeout 1500,
         ExecSync (''tmux send-keys -t '' @ dq @ ''disco_1_2'' @ dq @ '' Enter'')])
   \<and> list_ex isShellCommand (snd (sendToSession (answeringHost []) ''1_2'' ''hello''))
   \<and> \<not> list_ex isSpawn (snd (sendToSession (answeringHost []) ''1_2'' ''hello''))"
  by (simp add: sendToSession_def sessionExists_answering execSync_answering Let_def
      hasSessionCmd_def getTmuxName_def SESSION_PREFIX_def sendLiteralCmd_def sendKeyCmd_def
      escapeQuotes_def)

text \<open>
  C2, amended: the one \<open>spawnSync\<close> call of \<open>createSession\<close> (the multiplexer's
  \<open>new-session\<close>) has the argument vector below, in which the session name and the
  resolved directory are elements of their own, and a successful \<open>createSession\<close> has
  made that call; the directory \<open>/tmp/$(whoami)\<close> resolves to itself and so is passed
  verbatim. \<open>sendToSession\<close> never uses \<open>spawnSync\<close>: its existence probe and its
  text delivery are shell command lines built by interpolation, the text between single
  quotes with every single quote replaced by quote, backslash, quote, quote.
\<close>

theorem multiplexer_invocations:
  "(\<forall>e \<in> set (snd (createSession allowedPaths h guild channel dir)).
      isSpawn e \<longrightarrow>
      e = SpawnSync ''tmux''
            [''new-session'', ''-d'', ''-x'', ''200'', ''-y'', ''50'',
             ''-s'', getTmuxName (makeSessionId guild channel),
             ''-c'', resolve (cwd h) (expandHome (homedir h) dir),
             ''claude'', ''--dangerously-skip-permissions''])
   \<and> (\<forall>info. fst (createSession allowedPaths h guild channel dir) = Inr info \<longrightarrow>
        SpawnSync ''tmux''
          [''new-session'', ''-d'', ''-x'', ''200'', ''-y'', ''50'',
           ''-s'', getTmuxName (makeSessionId guild channel),
           ''-c'', resolve (cwd h) (expandHome (homedir h) dir),
           ''claude'', ''--dangerously-skip-permissions'']
          \<in> set (snd (createSession allowedPaths h guild channel dir)))
   \<and> resolve (cwd h) (expandHome (homedir h) ''/tmp/$(whoami)'') = ''/tmp/$(whoami)''
   \<and> (\<forall>e \<in> set (snd (sendToSession h sessionId keys)). \<not> isSpawn e)
   \<and> (sessionExists h sessionId \<longrightarrow>
        take 2 (snd (sendToSession h sessionId keys))
          = [ExecSync (''tmux has-session -t '' @ dq @ getTmuxName sessionId @ dq @ '' 2>/dev/null''),
             ExecSync (''tmux send-keys -t '' @ dq @ getTmuxName sessionId @ dq @ '' -l ''
                         @ sq @ escapeQuotes keys @ sq)])"
proof (intro conjI)
  show "\<forall>e \<in> set (snd (createSession allowedPaths h guild channel dir)).
      isSpawn e \<longrightarrow>
      e = SpawnSync ''tmux''
            [''new-session'', ''-d'', ''-x'', ''200'', ''-y'', ''50'',
             ''-s'', getTmuxName (makeSessionId guild channel),
             ''-c'', resolve (cwd h) (expandHome (homedir h) dir),
             ''claude'', ''--dangerously-skip-permissions'']"
    by (auto simp: createSession_def Let_def newSessionArgs_def split: option.splits if_splits)
  show "\<forall>info. fst (createSession allowedPaths h guild channel dir) = Inr info \<longrightarrow>
        SpawnSync ''tmux''
          [''new-session'', ''-d'', ''-x'', ''200'', ''-y'', ''50'',
           ''-s'', getTmuxName (makeSessionId guild channel),
           ''-c'', resolve (cwd h) (expandHome (homedir h) dir),
           ''claude'', ''--dangerously-skip-permissions'']
          \<in> set (snd (createSession allowedPaths h guild channel dir))"
    by (auto simp: createSession_def Let_def newSessionArgs_def split: option.splits if_splits)
  show "resolve (cwd h) (expandHome (homedir h) ''/tmp/$(whoami)'') = ''/tmp/$(whoami)''"
    by (simp add: expandHome_absolute resolve_tmp_whoami)
  show "\<forall>e \<in> set (snd (sendToSession h sessionId keys)). \<not> isSpawn e"
    by (auto simp: sendToSession_def Let_def split: sum.splits if_splits)
  show "sessionExists h sessionId \<longrightarrow>
        take 2 (snd (sendToSession h sessionId keys))
          = [ExecSync (''tmux has-session -t '' @ dq @ getTmuxName sessionId @ dq @ '' 2>/dev/null''),
             ExecSync (''tmux send-keys -t '' @ dq @ getTmuxName sessionId @ dq @ '' -l ''
                         @ sq @ escapeQuotes keys @ sq)]"
    by (auto simp: sendToSession_def Let_def hasSessionCmd_def sendLiteralCmd_def split: sum.splits)
qed

theorem multiplexer_invocations_witness:
  "snd (createSession [] freshHost ''1'' ''2'' ''/tmp/$(whoami)'')
     = [ExecSync (hasSessionCmd ''disco_1_2''),
        SpawnSync ''tmux''
          [''new-session'', ''-d'', ''-x'', ''200'', ''-y'', ''50'', ''-s'', ''disco_1_2'',
           ''-c'', ''/tmp/$(whoami)'', ''claude'', ''--dangerously-skip-permissions'']]
   \<and> SpawnSync ''tmux''
          [''new-session'', ''-d'', ''-x'', ''200'', ''-y'', ''50'', ''-s'', ''disco_1_2'',
           ''-c'', ''/tmp/$(whoami)'', ''claude'', ''--dangerously-skip-permissions'']
        \<in> set (snd (createSession [] freshHost ''1'' ''2'' ''/tmp/$(whoami)''))
   \<and> take 2 (snd (sendToSession (answeringHost []) ''1_2'' ''it's''))
       = [ExecSync (''tmux has-session -t '' @ dq @ ''disco_1_2'' @ dq @ '' 2>/dev/null''),
          ExecSync (''tmux send-keys -t '' @ dq @ ''disco_1_2'' @ dq @ '' -l ''
                      @ sq @ ''it'' @ sq @ [CHR 0x5C] @ sq @ sq @ ''s'' @ sq)]"
proof -
  have c: "createSession [] freshHost ''1'' ''2'' ''/tmp/$(whoami)''
     = (Inr \<lparr>id' = ''1_2'', tmuxName = ''disco_1_2'', directory = ''/tmp/$(whoami)'',
             guildId = Some ''1'', channelId = Some ''2'',
             attachCommand = ''tmux attach -t disco_1_2'', createdAt = Some CurrentTime\<rparr>,
        [ExecSync (hasSessionCmd ''disco_1_2''),
         SpawnSync ''tmux'' (newSessionArgs ''disco_1_2'' ''/tmp/$(whoami)'')])"
    by (simp add: createSession_def Let_def isPathAllowed_Nil expandHome_absolute resolve_tmp_whoami
        existsSync_fresh sessionExists_fresh spawnSync_fresh makeSessionId_def getTmuxName_def
        SESSION_PREFIX_def)
  have n: "getTmuxName (makeSessionId ''1'' ''2'') = ''disco_1_2''" "getTmuxName ''1_2'' = ''disco_1_2''"
    by (simp_all add: makeSessionId_def getTmuxName_def SESSION_PREFIX_def)
  have e: "escapeQuotes ''it's'' = ''it'' @ sq @ [CHR 0x5C] @ sq @ sq @ ''s''"
    by (simp add: escapeQuotes_def)
  show ?thesis
    using multiplexer_invocations [where allowedPaths = "[]" and h = freshHost and guild = "''1''"
        and channel = "''2''" and dir = "''/tmp/$(whoami)''"]
      multiplexer_invocations [where h = "answeringHost []" and sessionId = "''1_2''" and keys = "''it's''"]
    by (simp add: c n e newSessionArgs_def sessionExists_answering)
qed

section \<open>C3: the channel registry stays a bijection\<close>

text \<open>
  C3 says that after any sequence of registry operations the two maps are inverses of
  each other. \<open>linkChannel\<close> writes both maps and removes nothing: linking the session
  \<open>s\<close> to the channel \<open>c1\<close> and then to \<open>c2\<close> leaves \<open>c1\<close> pointing at \<open>s\<close>
  in the reverse map while the forward map sends \<open>s\<close> to \<open>c2\<close>.
\<close>

theorem linkChannel_stale_reverse_entry:
  "getChannelBySession (linkChannel (linkChannel newSessionManager0 ''s'' ''c1'') ''s'' ''c2'') ''s''
     = Some ''c2''
   \<and> getSessionByChannel (linkChannel (linkChannel newSessionManager0 ''s'' ''c1'') ''s'' ''c2'') ''c1''
     = Some ''s''
   \<and> getSessionByChannel (linkChannel (linkChannel newSessionManager0 ''s'' ''c1'') ''s'' ''c2'') ''c2''
     = Some ''s''"
  by (simp add: linkChannel_def getChannelBySession_def getSessionByChannel_def newSessionManager0_def)

section \<open>C4: the rejections of createSession\<close>

text \<open>
  C4. \<open>createSession\<close> makes its checks in the order the specification gives them: the
  access guard, then the directory, then the session. In both copies of the session
  manager: a resolved directory that the guard rejects fails with
  \<open>Directory not in allowed paths\<close>; one that passed the guard and is absent from the file
  system fails with \<open>Directory does not exist\<close>; when the directory passed the guard and
  exists and the session is running, the call fails with \<open>already exists\<close>. Whenever the
  directory is absent or the session is running, whatever the guard says, the call fails
  and \<open>spawnSync\<close> is never invoked.
\<close>

theorem createSession_rejections:
  "(\<not> isPathAllowed allowedPaths (cwd h) (resolve (cwd h) (expandHome (homedir h) dir)) \<longrightarrow>
      createSession allowedPaths h guild channel dir
        = (Inl (''Directory not in allowed paths: '' @ resolve (cwd h) (expandHome (homedir h) dir)), []))
   \<and> (isPathAllowed allowedPaths (cwd h) (resolve (cwd h) (expandHome (homedir h) dir))
        \<and> \<not> existsSync h (resolve (cwd h) (expandHome (homedir h) dir)) \<longrightarrow>
      createSession allowedPaths h guild channel dir
        = (Inl (''Directory does not exist: '' @ resolve (cwd h) (expandHome (homedir h) dir)), []))
   \<and> (isPathAllowed allowedPaths (cwd h) (resolve (cwd h) (expandHome (homedir h) dir))
        \<and> existsSync h (resolve (cwd h) (expandHome (homedir h) dir))
        \<and> sessionExists h (makeSessionId guild channel) \<longrightarrow>
      createSession allowedPaths h guild channel dir
        = (Inl ''Session for this channel already exists'',
           [ExecSync (hasSessionCmd (getTmuxName (makeSessionId guild channel)))]))
   \<and> (\<not> existsSync h (resolve (cwd h) (expandHome (homedir h) dir))
        \<or> sessionExists h (makeSessionId guild channel) \<longrightarrow>
      (\<exists>msg. fst (createSession allowedPaths h guild channel dir) = Inl msg)
      \<and> \<not> list_ex isSpawn (snd (createSession allowedPaths h guild channel dir)))
   \<and> (\<not> isPathAllowed allowedPaths (cwd h) (resolve (cwd h) (expandHome (homedir h) dir)) \<longrightarrow>
      createSession0 allowedPaths h m sessionId dir channel
        = (Inl (''Directory not in allowed paths: '' @ resolve (cwd h) (expandHome (homedir h) dir)),
           m, []))
   \<and> (isPathAllowed allowedPaths (cwd h) (resolve (cwd h) (expandHome (homedir h) dir))
        \<and> \<not> existsSync h (resolve (cwd h) (expandHome (homedir h) dir)) \<longrightarrow>
      createSession0 allowedPaths h m sessionId dir channel
        = (Inl (''Directory does not exist: '' @ resolve (cwd h) (expandHome (homedir h) dir)), m, []))
   \<and> (isPathAllowed allowedPaths (cwd h) (resolve (cwd h) (expandHome (homedir h) dir))
        \<and> existsSync h (resolve (cwd h) (expandHome (homedir h) dir))
        \<and> sessionExists0 h sessionId \<longrightarrow>
      createSession0 allowedPaths h m sessionId dir channel
        = (Inl (''Session '' @ dq @ sessionId @ dq @ '' already exists''), m,
           [ExecSync (hasSessionCmd (getTmuxName0 sessionId))]))
   \<and> (\<not> existsSync h (resolve (cwd h) (expandHome (homedir h) dir)) \<or> sessionExists0 h sessionId \<longrightarrow>
      (\<exists>msg. fst (createSession0 allowedPaths h m sessionId dir channel) = Inl msg)
      \<and> \<not> list_ex isSpawn (snd (snd (createSession0 allowedPaths h m sessionId dir channel))))"
  by (simp add: createSession_def createSession0_def Let_def)

theorem createSession_rejections_witness:
  "createSession [] ((answeringHost [])\<lparr>existsSync := (\<lambda>p. False)\<rparr>) ''1'' ''2'' ''/etc/nope''
     = (Inl ''Directory does not exist: /etc/nope'', [])
   \<and> createSession [] (answeringHost []) ''1'' ''2'' ''/tmp''
     = (Inl ''Session for this channel already exists'',
        [ExecSync (hasSessionCmd (getTmuxName (makeSessionId ''1'' ''2'')))])
   \<and> createSession [''/home/projects''] emptyHost ''1'' ''2'' ''/etc/nope''
     = (Inl ''Directory not in allowed paths: /etc/nope'', [])
   \<and> createSession0 [''/home/projects''] freshHost newSessionManager0 ''s'' ''/etc/nope'' ''2''
     = (Inl ''Directory not in allowed paths: /etc/nope'', newSessionManager0, [])
   \<and> createSession0 [] ((answeringHost [])\<lparr>existsSync := (\<lambda>p. False)\<rparr>) newSessionManager0 ''s''
         ''/etc/nope'' ''2''
     = (Inl ''Directory does not exist: /etc/nope'', newSessionManager0, [])
   \<and> createSession0 [] (answeringHost []) newSessionManager0 ''s'' ''/tmp'' ''2''
     = (Inl (''Session '' @ dq @ ''s'' @ dq @ '' already exists''), newSessionManager0,
        [ExecSync (hasSessionCmd (getTmuxName0 ''s''))])"
proof -
  have n: "\<not> isPathAllowed [''/home/projects''] cw ''/etc/nope''" for cw
    by (simp add: isPathAllowed_def resolve_etc_nope startsWith_def)
  show ?thesis
    using createSession_rejections [where allowedPaths = "[]"
        and h = "(answeringHost [])\<lparr>existsSync := (\<lambda>p. False)\<rparr>" and dir = "''/etc/nope''"
        and guild = "''1''" and channel = "''2''" and m = newSessionManager0 and sessionId = "''s''"]
      createSession_rejections [where allowedPaths = "[]" and h = "answeringHost []"
        and dir = "''/tmp''" and guild = "''1''" and channel = "''2''" and m = newSessionManager0
        and sessionId = "''s''"]
      createSession_rejections [where allowedPaths = "[''/home/projects'']" and h = emptyHost
        and dir = "''/etc/nope''" and guild = "''1''" and channel = "''2''"]
      createSession_rejections [where allowedPaths = "[''/home/projects'']" and h = freshHost
        and dir = "''/etc/nope''" and m = newSessionManager0 and sessionId = "''s''"
        and channel = "''2''"]
    by (simp add: isPathAllowed_Nil n resolve_tmp resolve_etc_nope expandHome_absolute
        sessionExists_answering sessionExists0_answering existsSync_answering)
qed

section \<open>C5: nothing new, and the example\<close>

text \<open>
  C5. \<open>getNewOutput\<close> returns null when there is no cached capture, when the cached
  capture is the empty string, and when it equals the new capture. With the cached capture
  made of the lines \<open>A\<close> and \<open>B\<close> and the new capture made of the lines \<open>A\<close>,
  \<open>B\<close> and \<open>C\<close> (separated by line feeds) it returns \<open>C\<close>.
\<close>

theorem getNewOutput_none_or_C:
  "diffOutput [] output = None
   \<and> diffOutput output output = None
   \<and> diffOutput ''A\<newline>B'' ''A\<newline>B\<newline>C'' = Some ''C''
   \<and> (captureOutput h sessionId lines = Inr output \<longrightarrow>
        (cache sessionId = None \<or> cache sessionId = Some [] \<or> cache sessionId = Some output) \<longrightarrow>
        fst (getNewOutput cache h sessionId lines) = Inr None)
   \<and> (captureOutput h sessionId lines = Inr ''A\<newline>B\<newline>C'' \<longrightarrow>
        cache sessionId = Some ''A\<newline>B'' \<longrightarrow>
        fst (getNewOutput cache h sessionId lines) = Inr (Some ''C''))"
proof (intro conjI impI)
  show "diffOutput [] output = None"
    by (simp add: diffOutput_def)
  show "diffOutput output output = None"
    by (simp add: diffOutput_def)
  show "diffOutput ''A\<newline>B'' ''A\<newline>B\<newline>C'' = Some ''C''"
    by (rule diffOutput_ABC)
next
  assume cap: "captureOutput h sessionId lines = Inr output"
    and old: "cache sessionId = None \<or> cache sessionId = Some [] \<or> cache sessionId = Some output"
  from old have "orElse (cache sessionId) [] = [] \<or> orElse (cache sessionId) [] = output"
    by (auto simp: orElse_def)
  then have "diffOutput (orElse (cache sessionId) []) output = None"
    by (auto simp: diffOutput_def)
  with cap show "fst (getNewOutput cache h sessionId lines) = Inr None"
    by (simp add: getNewOutput_def)
next
  assume cap: "captureOutput h sessionId lines = Inr ''A\<newline>B\<newline>C''"
    and old: "cache sessionId = Some ''A\<newline>B''"
  from old have "orElse (cache sessionId) [] = ''A\<newline>B''"
    by (simp add: orElse_def)
  with cap show "fst (getNewOutput cache h sessionId lines) = Inr (Some ''C'')"
    by (simp add: getNewOutput_def diffOutput_ABC)
qed

theorem getNewOutput_none_or_C_witness:
  "fst (getNewOutput (Map.empty(''s'' \<mapsto> ''A\<newline>B'')) (answeringHost ''A\<newline>B\<newline>C'') ''s'' ''200'')
     = Inr (Some ''C'')
   \<and> fst (getNewOutput Map.empty (answeringHost ''A\<newline>B\<newline>C'') ''s'' ''200'') = Inr None"
  using getNewOutput_none_or_C [of "''A\<newline>B\<newline>C''" "answeringHost ''A\<newline>B\<newline>C''" "''s''" "''200''"
      "Map.empty(''s'' \<mapsto> ''A\<newline>B'')"]
    getNewOutput_none_or_C [of "''A\<newline>B\<newline>C''" "answeringHost ''A\<newline>B\<newline>C''" "''s''" "''200''"
      "Map.empty"]
    captureOutput_answering [of "''A\<newline>B\<newline>C''" "''s''" "''200''"]
  by simp

section \<open>C6: the fast path of the differ\<close>

text \<open>
  C6. The differ applies its steps in order, and the first step (no previous capture, or
  an unchanged one) comes before the fast path. For every pair of captures where the
  current capture is strictly longer than the previous one and ends with the last 500
  code units of the previous one: when there is a previous capture (it is not the empty
  string) \<open>getNewOutput\<close> returns the first (current length minus previous length) code
  units of the current capture; on the first observation, where the previous text is the
  empty string, the first step has answered null.
\<close>

theorem fast_path_prefix:
  "length last' < length output \<Longrightarrow> endsWith output (sliceFromEnd 500 last') \<Longrightarrow>
   diffOutput last' output
     = (if last' = [] then None else Some (take (length output - length last') output))
   \<and> (captureOutput h sessionId lines = Inr output \<longrightarrow> orElse (cache sessionId) [] = last' \<longrightarrow>
        fst (getNewOutput cache h sessionId lines)
          = Inr (if last' = [] then None else Some (take (length output - length last') output)))"
  by (auto simp: diffOutput_def sliceTo_def getNewOutput_def)

theorem fast_path_prefix_witness:
  "diffOutput ''prompt>'' ''line one\<newline>prompt>'' = Some ''line one\<newline>''
   \<and> fst (getNewOutput (Map.empty(''s'' \<mapsto> ''prompt>'')) (answeringHost ''line one\<newline>prompt>'') ''s''
            ''200'')
       = Inr (Some ''line one\<newline>'')
   \<and> fst (getNewOutput Map.empty (answeringHost ''A'') ''s'' ''200'') = Inr None"
  using fast_path_prefix [of "''prompt>''" "''line one\<newline>prompt>''"
      "answeringHost ''line one\<newline>prompt>''" "''s''" "''200''" "Map.empty(''s'' \<mapsto> ''prompt>'')"]
    fast_path_prefix [of "[]" "''A''" "answeringHost ''A''" "''s''" "''200''" "Map.empty"]
    captureOutput_answering [of "''line one\<newline>prompt>''" "''s''" "''200''"]
    captureOutput_answering [of "''A''" "''s''" "''200''"]
  by (simp add: endsWith_def sliceFromEnd_def orElse_def)

section \<open>C7: killSession cleans the registry\<close>

text \<open>
  C7 says that a successful \<open>killSession\<close> removes both directions of any channel
  mapping that referenced the session. After linking the session \<open>s\<close> to the channel
  \<open>c1\<close> and then to \<open>c2\<close>, killing \<open>s\<close> succeeds and removes the forward entry
  and the reverse entry of \<open>c2\<close>, but the reverse entry of \<open>c1\<close> still names \<open>s\<close>. A session linked to the empty channel id keeps its
  reverse entry as well.
\<close>

theorem killSession0_keeps_stale_reverse_entry:
  "fst (killSession0 (linkChannel (linkChannel newSessionManager0 ''s'' ''c1'') ''s'' ''c2'')
          (answeringHost []) ''s'') = Inr True
   \<and> getChannelBySession
         (snd (killSession0 (linkChannel (linkChannel newSessionManager0 ''s'' ''c1'') ''s'' ''c2'')
                 (answeringHost []) ''s'')) ''s'' = None
   \<and> getSessionByChannel
         (snd (killSession0 (linkChannel (linkChannel newSessionManager0 ''s'' ''c1'') ''s'' ''c2'')
                 (answeringHost []) ''s'')) ''c2'' = None
   \<and> getSessionByChannel
         (snd (killSession0 (linkChannel (linkChannel newSessionManager0 ''s'' ''c1'') ''s'' ''c2'')
                 (answeringHost []) ''s'')) ''c1'' = Some ''s''
   \<and> getSessionByChannel
         (snd (killSession0 (linkChannel newSessionManager0 ''s'' []) (answeringHost []) ''s'')) []
       = Some ''s''"
  by (simp add: killSession0_def sessionExists0_answering execSync_answering linkChannel_def
      getChannelBySession_def getSessionByChannel_def newSessionManager0_def Let_def)

section \<open>C8: the delay before Enter\<close>

text \<open>
  C8 says that every delivery types the text first and sends Enter only after a deliberate
  delay. \<open>sendToSession\<close> of \<open>src/unnamed/part_000\<close> sets no timer at all: on a running
  session its effects are the existence probe, the command that types the text and,
  directly after it, the command that sends Enter; and no call of it, whatever the host
  answers, has a timer among its effects. (\<open>src/src/sessionManager.ts\<close> awaits a timer of
  1500 ms between the two commands: \<open>sendToSession_waits_before_Enter\<close> below.)
\<close>

theorem sendToSession0_sends_Enter_without_delay:
  "sendToSession0 (answeringHost []) ''s'' ''hello''
     = (Inr True,
        [ExecSync (''tmux has-session -t '' @ dq @ ''claude-s'' @ dq @ '' 2>/dev/null''),
         ExecSync (''tmux send-keys -t '' @ dq @ ''claude-s'' @ dq @ '' -l '' @ sq @ ''hello'' @ sq),
         ExecSync (''tmux send-keys -t '' @ dq @ ''claude-s'' @ dq @ '' Enter'')])
   \<and> \<not> list_ex isTimer (snd (sendToSession0 h sessionId keys))"
proof
  show "sendToSession0 (answeringHost []) ''s'' ''hello''
     = (Inr True,
        [ExecSync (''tmux has-session -t '' @ dq @ ''claude-s'' @ dq @ '' 2>/dev/null''),
         ExecSync (''tmux send-keys -t '' @ dq @ ''claude-s'' @ dq @ '' -l '' @ sq @ ''hello'' @ sq),
         ExecSync (''tmux send-keys -t '' @ dq @ ''claude-s'' @ dq @ '' Enter'')])"
    by (simp add: sendToSession0_def sessionExists0_answering execSync_answering Let_def
        hasSessionCmd_def getTmuxName0_def SESSION_PREFIX0_def sendLiteralCmd_def sendKeyCmd_def
        escapeQuotes_def)
  show "\<not> list_ex isTimer (snd (sendToSession0 h sessionId keys))"
    by (simp add: sendToSession0_def Let_def split: sum.splits)
qed

section \<open>C9: the session listing\<close>

text \<open>
  C9, as stated: the id of every listed session is its name without the prefix. In
  \<open>src/src/sessionManager.ts\<close> the id is \<open>sessionId || name\<close>: a session named
  exactly \<open>disco_\<close> has the empty string as stripped id and is listed with the whole
  name as its id.
\<close>

theorem listSessions_bare_prefix_counterexample:
  "map tmuxName (listSessions (answeringHost ''disco_|1700000000|/tmp'')) = [''disco_'']
   \<and> map id' (listSessions (answeringHost ''disco_|1700000000|/tmp'')) = [''disco_'']
   \<and> drop (length SESSION_PREFIX) ''disco_'' = []"
  by (simp add: listSessions_def execSync_answering trim_def isWhiteSpace_def startsWith_def
      SESSION_PREFIX_def sessionOfLine_def getSessionIdFromTmuxName_def orElse_def Let_def)

text \<open>
  C9, amended: a failing host listing gives the empty list (the only call that can throw
  is \<open>execSync\<close>, and the \<open>try\<close> block catches it); every listed name begins with the
  prefix; the id is the name without the prefix, except that \<open>src/src/sessionManager.ts\<close>
  gives a session whose name is the bare prefix its whole name as id.
\<close>

theorem listSessions_namespace:
  "(execSync h listSessionsCmd = Inl err \<longrightarrow> listSessions h = [] \<and> listSessions0 m h = [])
   \<and> (\<forall>info \<in> set (listSessions h).
        startsWith (tmuxName info) SESSION_PREFIX
        \<and> id' info = (if tmuxName info = SESSION_PREFIX then tmuxName info
                       else drop (length SESSION_PREFIX) (tmuxName info)))
   \<and> (\<forall>info \<in> set (listSessions0 m h).
        startsWith (tmuxName info) SESSION_PREFIX0
        \<and> id' info = drop (length SESSION_PREFIX0) (tmuxName info))"
proof (intro conjI impI ballI)
  assume "execSync h listSessionsCmd = Inl err"
  then show "listSessions h = []" and "listSessions0 m h = []"
    by (simp_all add: listSessions_def listSessions0_def)
next
  fix info
  assume "info \<in> set (listSessions h)"
  then obtain line where "startsWith line SESSION_PREFIX" and "info = sessionOfLine line"
    by (auto simp: listSessions_def split: sum.splits)
  then show "startsWith (tmuxName info) SESSION_PREFIX"
    and "id' info = (if tmuxName info = SESSION_PREFIX then tmuxName info
                     else drop (length SESSION_PREFIX) (tmuxName info))"
    using sessionOfLine_name [of line] by simp_all
next
  fix info
  assume "info \<in> set (listSessions0 m h)"
  then obtain line where "startsWith line SESSION_PREFIX0" and "info = sessionOfLine0 m line"
    by (auto simp: listSessions0_def split: sum.splits)
  then show "startsWith (tmuxName info) SESSION_PREFIX0"
    and "id' info = drop (length SESSION_PREFIX0) (tmuxName info)"
    using sessionOfLine0_name [of line m] by simp_all
qed

theorem listSessions_namespace_witness:
  "listSessions emptyHost = []
   \<and> startsWith ''disco_1_2'' SESSION_PREFIX
   \<and> drop (length SESSION_PREFIX) ''disco_1_2'' = ''1_2''
   \<and> map id' (listSessions (answeringHost ''disco_1_2|1700000000|/tmp\<newline>other|1700000001|/home\<newline>''))
       = [''1_2'']"
  using listSessions_namespace [of emptyHost "''no server running''" newSessionManager0]
    listSessions_namespace [of "answeringHost ''disco_1_2|1700000000|/tmp\<newline>other|1700000001|/home\<newline>''"]
  by (simp add: listSessions_example emptyHost_def SESSION_PREFIX_def)

section \<open>C10: the differ never returns the empty string\<close>

text \<open>
  C10. \<open>getNewOutput\<close> never returns the empty string: whatever the cached and the new
  capture are, its result is null or a non-empty string.
\<close>

theorem getNewOutput_never_empty:
  "diffOutput last' output \<noteq> Some []
   \<and> fst (getNewOutput cache h sessionId lines) \<noteq> Inr (Some [])"
proof
  show d: "diffOutput a b \<noteq> Some []" for a b
    by (auto simp: diffOutput_def sliceTo_def Let_def)
  show "fst (getNewOutput cache h sessionId lines) \<noteq> Inr (Some [])"
    using d by (simp add: getNewOutput_def split: sum.splits)
qed

chapter \<open>Further properties\<close>

section \<open>The effects of sendToSession\<close>

text \<open>
  The effects of \<open>sendToSession\<close> in \<open>src/src/sessionManager.ts\<close> are a prefix of: the
  existence probe, the command that types the text, the 1500 ms timer, the command that
  sends Enter. The call returns true exactly when the session exists and both commands
  succeed.
\<close>

theorem sendToSession_effect_order:
  "snd (sendToSession h sessionId keys)
     \<in> {[ExecSync (hasSessionCmd (getTmuxName sessionId))],
        [ExecSync (hasSessionCmd (getTmuxName sessionId)),
         ExecSync (sendLiteralCmd (getTmuxName sessionId) (escapeQuotes keys))],
        [ExecSync (hasSessionCmd (getTmuxName sessionId)),
         ExecSync (sendLiteralCmd (getTmuxName sessionId) (escapeQuotes keys)),
         SetTimeout 1500,
         ExecSync (sendKeyCmd (getTmuxName sessionId) ''Enter'')]}
   \<and> (fst (sendToSession h sessionId keys) = Inr True \<longleftrightarrow>
        sessionExists h sessionId
        \<and> isl (execSync h (sendLiteralCmd (getTmuxName sessionId) (escapeQuotes keys))) = False
        \<and> isl (execSync h (sendKeyCmd (getTmuxName sessionId) ''Enter'')) = False)"
  by (auto simp: sendToSession_def Let_def split: sum.splits)

text \<open>
  In \<open>src/src/sessionManager.ts\<close> every delivery that succeeds has exactly these effects, in
  this order: the existence probe, the command that types the text, a timer of 1500 ms
  (between one and two seconds), the command that sends Enter. No call sends Enter without
  the timer before it: the Enter command is never the effect that follows the text command.
\<close>

theorem sendToSession_waits_before_Enter:
  "(fst (sendToSession h sessionId keys) = Inr True \<longrightarrow>
      (\<exists>ms. 1000 \<le> ms \<and> ms \<le> 2000
         \<and> snd (sendToSession h sessionId keys)
             = [ExecSync (hasSessionCmd (getTmuxName sessionId)),
                ExecSync (sendLiteralCmd (getTmuxName sessionId) (escapeQuotes keys)),
                SetTimeout ms,
                ExecSync (sendKeyCmd (getTmuxName sessionId) ''Enter'')]))
   \<and> (ExecSync (sendKeyCmd (getTmuxName sessionId) ''Enter'') \<in> set (snd (sendToSession h sessionId keys))
        \<longrightarrow> list_ex isTimer (snd (sendToSession h sessionId keys)))"
proof (intro conjI impI)
  assume "fst (sendToSession h sessionId keys) = Inr True"
  then have "snd (sendToSession h sessionId keys)
      = [ExecSync (hasSessionCmd (getTmuxName sessionId)),
         ExecSync (sendLiteralCmd (getTmuxName sessionId) (escapeQuotes keys)),
         SetTimeout 1500,
         ExecSync (sendKeyCmd (getTmuxName sessionId) ''Enter'')]"
    by (auto simp: sendToSession_def Let_def split: sum.splits if_splits)
  then show "\<exists>ms. 1000 \<le> ms \<and> ms \<le> 2000
         \<and> snd (sendToSession h sessionId keys)
             = [ExecSync (hasSessionCmd (getTmuxName sessionId)),
                ExecSync (sendLiteralCmd (getTmuxName sessionId) (escapeQuotes keys)),
                SetTimeout ms,
                ExecSync (sendKeyCmd (getTmuxName sessionId) ''Enter'')]"
    by (intro exI [of _ 1500]) simp
next
  assume e: "ExecSync (sendKeyCmd (getTmuxName sessionId) ''Enter'')
      \<in> set (snd (sendToSession h sessionId keys))"
  have d: "sendKeyCmd name ''Enter'' \<noteq> hasSessionCmd name
      \<and> sendKeyCmd name ''Enter'' \<noteq> sendLiteralCmd name escaped" for name escaped
    by (simp add: sendKeyCmd_def hasSessionCmd_def sendLiteralCmd_def)
  from e show "list_ex isTimer (snd (sendToSession h sessionId keys))"
    using d [of "getTmuxName sessionId" "escapeQuotes keys"]
    by (auto simp: sendToSession_def Let_def split: sum.splits if_splits)
qed

theorem sendToSession_waits_before_Enter_witness:
  "fst (sendToSession (answeringHost []) ''1_2'' ''hello'') = Inr True
   \<and> snd (sendToSession (answeringHost []) ''1_2'' ''hello'')
       = [ExecSync (hasSessionCmd (getTmuxName ''1_2'')),
          ExecSync (sendLiteralCmd (getTmuxName ''1_2'') (escapeQuotes ''hello'')),
          SetTimeout 1500,
          ExecSync (sendKeyCmd (getTmuxName ''1_2'') ''Enter'')]"
proof -
  have k: "fst (sendToSession (answeringHost []) ''1_2'' ''hello'') = Inr True"
    by (simp add: sendToSession_def sessionExists_answering execSync_answering Let_def)
  have e: "snd (sendToSession (answeringHost []) ''1_2'' ''hello'')
       = [ExecSync (hasSessionCmd (getTmuxName ''1_2'')),
          ExecSync (sendLiteralCmd (getTmuxName ''1_2'') (escapeQuotes ''hello'')),
          SetTimeout 1500,
          ExecSync (sendKeyCmd (getTmuxName ''1_2'') ''Enter'')]"
    by (simp add: sendToSession_def sessionExists_answering execSync_answering Let_def)
  show ?thesis
    using sendToSession_waits_before_Enter [of "answeringHost []" "''1_2''" "''hello''"] k e
    by simp
qed

section \<open>The registry operations of src/unnamed/part_000\<close>

text \<open>
  After \<open>linkChannel\<close> the session maps to the channel and the channel to the session.
\<close>

theorem linkChannel_sets_both:
  "getChannelBySession (linkChannel m sessionId channel) sessionId = Some channel
   \<and> getSessionByChannel (linkChannel m sessionId channel) channel = Some sessionId"
  by (simp add: linkChannel_def getChannelBySession_def getSessionByChannel_def)

text \<open>
  \<open>unlinkChannel\<close> of a channel that maps to a non-empty session id removes the channel's
  reverse entry and that session's forward entry.
\<close>

theorem unlinkChannel_removes_both:
  "getSessionByChannel m channel = Some sessionId \<Longrightarrow> sessionId \<noteq> [] \<Longrightarrow>
   getSessionByChannel (unlinkChannel m channel) channel = None
   \<and> getChannelBySession (unlinkChannel m channel) sessionId = None"
  by (simp add: unlinkChannel_def getChannelBySession_def getSessionByChannel_def)

theorem unlinkChannel_removes_both_witness:
  "getSessionByChannel (linkChannel newSessionManager0 ''s'' ''c'') ''c'' = Some ''s''
   \<and> getSessionByChannel (unlinkChannel (linkChannel newSessionManager0 ''s'' ''c'') ''c'') ''c'' = None
   \<and> getChannelBySession (unlinkChannel (linkChannel newSessionManager0 ''s'' ''c'') ''c'') ''s'' = None"
proof -
  have l: "getSessionByChannel (linkChannel newSessionManager0 ''s'' ''c'') ''c'' = Some ''s''"
    by (simp add: linkChannel_def getSessionByChannel_def)
  show ?thesis
    using unlinkChannel_removes_both [of "linkChannel newSessionManager0 ''s'' ''c''" "''c''" "''s''"] l
    by simp
qed

text \<open>
  A successful \<open>killSession\<close> leaves no entry that names the session, in either map or in
  the output cache, provided that before the call every reverse entry naming the session
  belongs to the channel the session maps to, and that channel is not the empty string.
\<close>

theorem killSession0_cleans_consistent_registry:
  assumes "fst (killSession0 m h sessionId) = Inr True"
    and "\<forall>channel. reverseMap m channel = Some sessionId \<longrightarrow> channelMap m sessionId = Some channel"
    and "channelMap m sessionId \<noteq> Some []"
  shows "getChannelBySession (snd (killSession0 m h sessionId)) sessionId = None
    \<and> (\<forall>channel. getSessionByChannel (snd (killSession0 m h sessionId)) channel \<noteq> Some sessionId)
    \<and> lastOutput (snd (killSession0 m h sessionId)) sessionId = None"
  using assms
  by (auto simp: killSession0_def Let_def getChannelBySession_def getSessionByChannel_def
      split: sum.splits option.splits if_splits)

theorem killSession0_cleans_consistent_registry_witness:
  "fst (killSession0 (linkChannel newSessionManager0 ''s'' ''c'') (answeringHost []) ''s'') = Inr True
   \<and> getChannelBySession
         (snd (killSession0 (linkChannel newSessionManager0 ''s'' ''c'') (answeringHost []) ''s'')) ''s''
       = None
   \<and> getSessionByChannel
         (snd (killSession0 (linkChannel newSessionManager0 ''s'' ''c'') (answeringHost []) ''s'')) ''c''
       \<noteq> Some ''s''"
proof -
  have k: "fst (killSession0 (linkChannel newSessionManager0 ''s'' ''c'') (answeringHost []) ''s'')
      = Inr True"
    by (simp add: killSession0_def sessionExists0_answering execSync_answering Let_def
        split: option.splits)
  have r: "\<forall>channel. reverseMap (linkChannel newSessionManager0 ''s'' ''c'') channel = Some ''s'' \<longrightarrow>
      channelMap (linkChannel newSessionManager0 ''s'' ''c'') ''s'' = Some channel"
    by (simp add: linkChannel_def newSessionManager0_def)
  have c: "channelMap (linkChannel newSessionManager0 ''s'' ''c'') ''s'' \<noteq> Some []"
    by (simp add: linkChannel_def newSessionManager0_def)
  show ?thesis
    using killSession0_cleans_consistent_registry [OF k r c] k by blast
qed

section \<open>killSession of src/src/sessionManager.ts\<close>

text \<open>
  A successful \<open>killSession\<close> removes the session's entry from the output cache; when
  the session does not exist the call fails with \<open>Session does not exist\<close> and leaves the
  cache as it was.
\<close>

theorem killSession_evicts_cache:
  "(fst (killSession cache h sessionId) = Inr True \<longrightarrow>
      snd (killSession cache h sessionId) sessionId = None)
   \<and> (\<not> sessionExists h sessionId \<longrightarrow>
        killSession cache h sessionId = (Inl ''Session does not exist'', cache))"
  by (auto simp: killSession_def split: sum.splits)

theorem killSession_evicts_cache_witness:
  "fst (killSession (Map.empty(''s'' \<mapsto> ''text'')) (answeringHost []) ''s'') = Inr True
   \<and> snd (killSession (Map.empty(''s'' \<mapsto> ''text'')) (answeringHost []) ''s'') ''s'' = None
   \<and> killSession (Map.empty(''s'' \<mapsto> ''text'')) emptyHost ''s''
       = (Inl ''Session does not exist'', Map.empty(''s'' \<mapsto> ''text''))"
proof -
  have k: "fst (killSession (Map.empty(''s'' \<mapsto> ''text'')) (answeringHost []) ''s'') = Inr True"
    by (simp add: killSession_def sessionExists_answering execSync_answering)
  have e: "\<not> sessionExists emptyHost ''s''"
    by (simp add: sessionExists_def emptyHost_def)
  show ?thesis
    using killSession_evicts_cache [of "Map.empty(''s'' \<mapsto> ''text'')" "answeringHost []" "''s''"]
      killSession_evicts_cache [of "Map.empty(''s'' \<mapsto> ''text'')" emptyHost "''s''"] k e
    by simp
qed

end
